theory Spec2Isabelle
  imports Main
begin

section \<open>Crystal class lookup (scripts/crystal_classes.py)\<close>

text \<open>
  The module holds two global dictionaries and two functions that read them. The model
  keeps the globals in a record that every function receives and returns, so that what
  a call does to the module state is part of its result.
\<close>

subsection \<open>Python values and primitives\<close>

text \<open>
  The values stored in the inner dictionaries of \<open>CRYSTAL_SYSTEM_INFO\<close> and in the
  dictionary that \<open>get_crystal_system_info\<close> returns: a \<open>str\<close> or a list of \<open>str\<close>.
  A Python \<open>str\<close> is a sequence of code points; every code point of this module is below
  256, so a \<open>char\<close> is one code point here.
\<close>

datatype pyval = PStr string | PList "string list"

datatype error = KeyError string | ValueError

text \<open>A dictionary display: of two items with the same key the later one stays.\<close>

definition dict_of :: "('k \<times> 'v) list \<Rightarrow> ('k \<rightharpoonup> 'v)" where
  "dict_of items = map_of (rev items)"

text \<open>\<open>d.get(k, default)\<close>: never raises.\<close>

definition dict_get :: "('k \<rightharpoonup> 'v) \<Rightarrow> 'k \<Rightarrow> 'v \<Rightarrow> 'v" where
  "dict_get d k dflt = (case d k of None \<Rightarrow> dflt | Some v \<Rightarrow> v)"

text \<open>\<open>d[k]\<close>: raises \<open>KeyError\<close> on a missing key.\<close>

definition subscript :: "(string \<rightharpoonup> 'v) \<Rightarrow> string \<Rightarrow> error + 'v" where
  "subscript d k = (case d k of None \<Rightarrow> Inl (KeyError k) | Some v \<Rightarrow> Inr v)"

text \<open>
  The decimal text of an \<open>int\<close>: digits, most significant first, no leading zero, a
  minus sign before a negative number.
\<close>

definition digit_char :: "nat \<Rightarrow> char" where
  "digit_char d = char_of (48 + d)"

fun digits :: "nat \<Rightarrow> string" where
  "digits n = (if n < 10 then [digit_char n] else digits (n div 10) @ [digit_char (n mod 10)])"

declare digits.simps [simp del]

definition decimal :: "int \<Rightarrow> string" where
  "decimal i = (if i < 0 then CHR ''-'' # digits (nat (- i)) else digits (nat i))"

text \<open>
  The conversion that \<open>str\<close> and an f-string replacement field apply to an \<open>int\<close>.
  CPython refuses it with \<open>ValueError\<close> when the number has more digits (the sign not
  counted) than \<open>sys.get_int_max_str_digits()\<close>, which is 4300 unless the interpreter
  is configured otherwise.
\<close>

definition max_str_digits :: nat where
  "max_str_digits = 4300"

definition str_int :: "int \<Rightarrow> error + string" where
  "str_int i =
     (if max_str_digits < length (digits (nat \<bar>i\<bar>)) then Inl ValueError
      else Inr (decimal i))"

subsection \<open>The module's globals\<close>

record globals =
  CRYSTAL_CLASS_LOOKUP :: "int \<rightharpoonup> string"
  CRYSTAL_SYSTEM_INFO :: "string \<rightharpoonup> (string \<rightharpoonup> pyval)"

text \<open>The module state after the two assignments at import time.\<close>

definition module_globals :: globals where
  "module_globals = \<lparr>
     CRYSTAL_CLASS_LOOKUP = dict_of [
       (1, ''Isometric (Cubic)''),
       (2, ''Hexagonal''),
       (3, ''Tetragonal''),
       (4, ''Orthorhombic''),
       (5, ''Monoclinic''),
       (6, ''Triclinic''),
       (7, ''Trigonal''),
       (8, ''Amorphous'')],
     CRYSTAL_SYSTEM_INFO = dict_of [
       (''Isometric (Cubic)'', dict_of [
          (''description'', PStr ''Has three equal axes at right angles. Characterized by high symmetry and includes common minerals like pyrite, halite, and fluorite.''),
          (''examples'', PList [''Pyrite'', ''Halite'', ''Fluorite'', ''Galena'', ''Diamond''])]),
       (''Hexagonal'', dict_of [
          (''description'', PStr (''Has three equal axes in one plane at 120'' @ [CHR 0xB0] @ '' angles, and a fourth axis perpendicular to this plane. Includes minerals like beryl and apatite.'')),
          (''examples'', PList [''Beryl'', ''Apatite'', ''Vanadinite''])]),
       (''Tetragonal'', dict_of [
          (''description'', PStr ''Has three axes at right angles, with two being equal in length. Includes minerals like zircon and rutile.''),
          (''examples'', PList [''Zircon'', ''Rutile'', ''Vesuvianite''])]),
       (''Orthorhombic'', dict_of [
          (''description'', PStr ''Has three unequal axes at right angles. Includes minerals like olivine and topaz.''),
          (''examples'', PList [''Olivine'', ''Topaz'', ''Baryte'', ''Aragonite''])]),
       (''Monoclinic'', dict_of [
          (''description'', PStr ''Has three unequal axes with one oblique intersection. Includes minerals like gypsum and orthoclase.''),
          (''examples'', PList [''Gypsum'', ''Orthoclase'', ''Hornblende'', ''Malachite''])]),
       (''Triclinic'', dict_of [
          (''description'', PStr ''Has three unequal axes with oblique intersections. The least symmetrical system, including minerals like plagioclase and kyanite.''),
          (''examples'', PList [''Plagioclase'', ''Kyanite'', ''Turquoise'', ''Microcline''])]),
       (''Trigonal'', dict_of [
          (''description'', PStr (''Previously considered part of the hexagonal system, it has three equal axes at 120'' @ [CHR 0xB0] @ '' angles. Includes quartz and calcite.'')),
          (''examples'', PList [''Quartz'', ''Calcite'', ''Corundum'', ''Tourmaline''])]),
       (''Amorphous'', dict_of [
          (''description'', PStr ''No definite crystalline structure. Includes minerals like opal which lack a regular internal atomic arrangement.''),
          (''examples'', PList [''Opal'', ''Obsidian'', ''Limonite''])])]
   \<rparr>"

subsection \<open>The two functions\<close>

text \<open>
  \<open>get_crystal_class_name(class_id)\<close>. The argument is an \<open>int\<close> or \<open>None\<close>. The default
  passed to \<open>.get\<close> is built before the lookup, as Python evaluates arguments first, so
  a failing conversion of \<open>class_id\<close> ends the call whether or not the key is present.
\<close>

definition get_crystal_class_name ::
  "int option \<Rightarrow> globals \<Rightarrow> (error + string) \<times> globals" where
  "get_crystal_class_name class_id g =
     (case class_id of
        None \<Rightarrow> (Inr ''Unknown'', g)
      | Some n \<Rightarrow>
          (case str_int n of
             Inl e \<Rightarrow> (Inl e, g)
           | Inr t \<Rightarrow>
               (let dflt = ''Unknown Crystal Class ('' @ t @ '')''
                in (Inr (dict_get (CRYSTAL_CLASS_LOOKUP g) n dflt), g))))"

text \<open>
  \<open>get_crystal_system_info(class_id)\<close>. An exception of \<open>get_crystal_class_name\<close>
  propagates. The returned dictionary is built key by key, in the order of the source; a
  missing key of \<open>info\<close> raises.
\<close>

definition get_crystal_system_info ::
  "int option \<Rightarrow> globals \<Rightarrow> (error + (string \<rightharpoonup> pyval)) \<times> globals" where
  "get_crystal_system_info class_id g =
     (case get_crystal_class_name class_id g of
        (Inl e, g1) \<Rightarrow> (Inl e, g1)
      | (Inr name, g1) \<Rightarrow>
        (let info = dict_get (CRYSTAL_SYSTEM_INFO g1) name (dict_of [
               (''description'', PStr ''No additional information available for this crystal system.''),
               (''examples'', PList [])])
         in case subscript info ''description'' of
              Inl e \<Rightarrow> (Inl e, g1)
            | Inr d \<Rightarrow>
                (case subscript info ''examples'' of
                   Inl e \<Rightarrow> (Inl e, g1)
                 | Inr ex \<Rightarrow>
                     (Inr (dict_of [(''name'', PStr name), (''description'', d), (''examples'', ex)]),
                      g1))))"

subsection \<open>Reading results and digit strings\<close>

text \<open>\<open>result[k]\<close> on the value a call of \<open>get_crystal_system_info\<close> returned.\<close>

definition field :: "(error + (string \<rightharpoonup> pyval)) \<times> globals \<Rightarrow> string \<Rightarrow> pyval option" where
  "field res k = (case fst res of Inl e \<Rightarrow> None | Inr r \<Rightarrow> r k)"

text \<open>
  The number a string of decimal digits denotes, read from the characters alone; and the
  inputs whose conversion stays within the digit limit.
\<close>

definition digit_val :: "char \<Rightarrow> nat" where
  "digit_val c = of_char c - 48"

definition nat_of_digits :: "string \<Rightarrow> nat" where
  "nat_of_digits ds = foldl (\<lambda>a c. 10 * a + digit_val c) 0 ds"

definition convertible :: "int option \<Rightarrow> bool" where
  "convertible x = (case x of None \<Rightarrow> True | Some n \<Rightarrow> \<bar>n\<bar> < 10 ^ max_str_digits)"

section \<open>Facts about the conversion and the tables\<close>

lemma digits_not_Nil: "digits n \<noteq> []"
  by (subst digits.simps) simp

lemma length_digits_Suc: "length (digits n) \<le> Suc k \<longleftrightarrow> n < 10 ^ Suc k"
proof (induction k arbitrary: n)
  case 0
  show ?case
  proof (cases "n < 10")
    case True
    then show ?thesis by (simp add: digits.simps [of n])
  next
    case False
    have "length (digits (n div 10)) \<noteq> 0" using digits_not_Nil by simp
    with False show ?thesis by (simp add: digits.simps [of n])
  qed
next
  case (Suc k)
  show ?case
  proof (cases "n < 10")
    case True
    have "(10::nat) ^ 1 \<le> 10 ^ Suc (Suc k)" by (rule power_increasing) simp_all
    then have "(10::nat) \<le> 10 ^ Suc (Suc k)" by (simp only: power_one_right)
    with True have "n < 10 ^ Suc (Suc k)" by (rule less_le_trans)
    with True show ?thesis by (simp add: digits.simps [of n])
  next
    case False
    have "n div 10 < 10 ^ Suc k \<longleftrightarrow> n < 10 ^ Suc (Suc k)"
      by (simp add: div_less_iff_less_mult mult.commute)
    with False Suc [of "n div 10"] show ?thesis by (simp add: digits.simps [of n])
  qed
qed

lemma length_digits: "0 < k \<Longrightarrow> length (digits n) \<le> k \<longleftrightarrow> n < 10 ^ k"
  using length_digits_Suc [of n "k - 1"] by simp

lemma max_str_digits_pos: "0 < max_str_digits"
  by (simp add: max_str_digits_def)

lemma over_limit: "max_str_digits < length (digits (nat \<bar>i\<bar>)) \<longleftrightarrow> 10 ^ max_str_digits \<le> \<bar>i\<bar>"
proof -
  have "length (digits (nat \<bar>i\<bar>)) \<le> max_str_digits \<longleftrightarrow> nat \<bar>i\<bar> < 10 ^ max_str_digits"
    by (rule length_digits [OF max_str_digits_pos])
  moreover have "nat \<bar>i\<bar> < 10 ^ max_str_digits \<longleftrightarrow> \<bar>i\<bar> < 10 ^ max_str_digits"
    by (simp add: nat_less_iff)
  ultimately show ?thesis by linarith
qed

lemma str_int_ok: "\<bar>i\<bar> < 10 ^ max_str_digits \<Longrightarrow> str_int i = Inr (decimal i)"
  using over_limit [of i] by (simp add: str_int_def)

lemma str_int_err: "10 ^ max_str_digits \<le> \<bar>i\<bar> \<Longrightarrow> str_int i = Inl ValueError"
  using over_limit [of i] by (simp add: str_int_def)

lemma small_limit: "n < 100 \<Longrightarrow> (n :: int) < 10 ^ max_str_digits"
proof -
  assume "n < 100"
  moreover have "(10::int) ^ 2 \<le> 10 ^ max_str_digits"
    by (rule power_increasing) (simp_all add: max_str_digits_def)
  ultimately show ?thesis by simp
qed

lemma small_convertible: "\<bar>n\<bar> < 100 \<Longrightarrow> \<bar>n :: int\<bar> < 10 ^ max_str_digits"
  by (rule small_limit)


lemma lookup_table:
  "CRYSTAL_CLASS_LOOKUP module_globals n =
     (if n = 1 then Some ''Isometric (Cubic)''
      else if n = 2 then Some ''Hexagonal''
      else if n = 3 then Some ''Tetragonal''
      else if n = 4 then Some ''Orthorhombic''
      else if n = 5 then Some ''Monoclinic''
      else if n = 6 then Some ''Triclinic''
      else if n = 7 then Some ''Trigonal''
      else if n = 8 then Some ''Amorphous''
      else None)"
  by (simp add: module_globals_def dict_of_def)

lemma table_keys: "1 \<le> n \<Longrightarrow> n \<le> 8 \<Longrightarrow> n \<in> {1, 2, 3, 4, 5, 6, 7, 8 :: int}"
  by simp arith

lemma of_digit_char: "d < 10 \<Longrightarrow> of_char (digit_char d) = 48 + d"
  by (simp add: digit_char_def)

lemma nat_of_digits_snoc:
  "nat_of_digits (ds @ [c]) = 10 * nat_of_digits ds + digit_val c"
  by (simp add: nat_of_digits_def)

lemma nat_of_digits_digits: "nat_of_digits (digits n) = n"
proof (induction n rule: digits.induct)
  case (1 n)
  show ?case
  proof (cases "n < 10")
    case True
    then show ?thesis by (simp add: digits.simps [of n] nat_of_digits_def digit_val_def of_digit_char)
  next
    case False
    with 1 show ?thesis
      by (simp add: digits.simps [of n] nat_of_digits_snoc digit_val_def of_digit_char)
  qed
qed

lemma digits_inj: "digits m = digits n \<Longrightarrow> m = n"
  by (metis nat_of_digits_digits)

lemma digit_char_in: "d < 10 \<Longrightarrow> digit_char d \<in> set ''0123456789''"
proof -
  have all: "list_all (\<lambda>d. digit_char d \<in> set ''0123456789'') [0..<10]"
    by code_simp
  assume "d < 10"
  then have "d \<in> set [0..<10]" by simp
  with all show ?thesis unfolding list_all_iff by blast
qed

lemma set_digits: "set (digits n) \<subseteq> set ''0123456789''"
proof (induction n rule: digits.induct)
  case (1 n)
  show ?case
  proof (cases "n < 10")
    case True
    then show ?thesis using digit_char_in [of n] by (simp add: digits.simps [of n])
  next
    case False
    with 1 show ?thesis
      using digit_char_in [of "n mod 10"] by (simp add: digits.simps [of n])
  qed
qed

lemma hd_digits: "hd (digits n) \<noteq> CHR ''-''"
proof -
  have "hd (digits n) \<in> set (digits n)" using digits_not_Nil by simp
  with set_digits [of n] have "hd (digits n) \<in> set ''0123456789''" by blast
  then show ?thesis by auto
qed

lemma no_leading_zero: "hd (digits n) = CHR ''0'' \<Longrightarrow> digits n = ''0''"
proof (induction n rule: digits.induct)
  case (1 n)
  show ?case
  proof (cases "n < 10")
    case True
    with 1(2) have "digit_char n = CHR ''0''" by (simp add: digits.simps [of n])
    then have "of_char (digit_char n) = (48::nat)" by simp
    with True have "n = 0" by (simp add: of_digit_char)
    then show ?thesis by (simp add: digits.simps [of 0] digit_char_def char_of_def bit_Suc_0_iff)
  next
    case False
    with 1(2) have "hd (digits (n div 10)) = CHR ''0''"
      by (simp add: digits.simps [of n] digits_not_Nil)
    with 1(1) False have "digits (n div 10) = ''0''" by simp
    then have "nat_of_digits (digits (n div 10)) = nat_of_digits ''0''" by simp
    then have "n div 10 = 0"
      by (simp add: nat_of_digits_digits) (simp add: nat_of_digits_def digit_val_def)
    with False show ?thesis by simp
  qed
qed

lemma decimal_inj: "decimal i = decimal j \<Longrightarrow> i = j"
  using hd_digits digits_not_Nil
  apply (auto simp: decimal_def split: if_splits dest!: digits_inj)
  apply (metis list.sel(1))
  apply (metis list.sel(1))
  done

lemma decimal_shape:
  "\<exists>ds. decimal n = (if n < 0 then ''-'' else []) @ ds \<and> ds \<noteq> [] \<and>
     set ds \<subseteq> set ''0123456789'' \<and> (hd ds = CHR ''0'' \<longrightarrow> ds = ''0'') \<and>
     int (nat_of_digits ds) = \<bar>n\<bar>"
proof (cases "n < 0")
  case True
  then show ?thesis
    using digits_not_Nil [of "nat (- n)"] set_digits [of "nat (- n)"] no_leading_zero [of "nat (- n)"]
    by (intro exI [of _ "digits (nat (- n))"]) (simp add: decimal_def nat_of_digits_digits)
next
  case False
  then show ?thesis
    using digits_not_Nil [of "nat n"] set_digits [of "nat n"] no_leading_zero [of "nat n"]
    by (intro exI [of _ "digits (nat n)"]) (simp add: decimal_def nat_of_digits_digits)
qed

lemma decimal_99: "decimal 99 = ''99''"
  by code_simp

lemma decimal_0: "decimal 0 = ''0''"
  by code_simp

lemma decimal_neg: "decimal (- 5) = ''-5''"
  by code_simp

lemma dom_info:
  "dom (CRYSTAL_SYSTEM_INFO module_globals) =
     {''Isometric (Cubic)'', ''Hexagonal'', ''Tetragonal'', ''Orthorhombic'', ''Monoclinic'',
      ''Triclinic'', ''Trigonal'', ''Amorphous''}"
  by (auto simp: module_globals_def dict_of_def split: if_splits)


lemma info_entry_shape:
  "CRYSTAL_SYSTEM_INFO module_globals k = Some entry \<Longrightarrow>
     \<exists>d e. entry ''description'' = Some (PStr d) \<and> entry ''examples'' = Some (PList e)
       \<and> d \<noteq> [] \<and> e \<noteq> []"
  by (auto simp: module_globals_def dict_of_def split: if_splits)

lemma name_state: "snd (get_crystal_class_name x g) = g"
  by (simp add: get_crystal_class_name_def Let_def split: option.split sum.split)

lemma name_None: "get_crystal_class_name None g = (Inr ''Unknown'', g)"
  by (simp add: get_crystal_class_name_def)

lemma name_Some:
  "\<bar>n\<bar> < 10 ^ max_str_digits \<Longrightarrow>
   get_crystal_class_name (Some n) module_globals =
     (Inr (if n = 1 then ''Isometric (Cubic)''
      else if n = 2 then ''Hexagonal''
      else if n = 3 then ''Tetragonal''
      else if n = 4 then ''Orthorhombic''
      else if n = 5 then ''Monoclinic''
      else if n = 6 then ''Triclinic''
      else if n = 7 then ''Trigonal''
      else if n = 8 then ''Amorphous''
      else ''Unknown Crystal Class ('' @ decimal n @ '')''), module_globals)"
  by (simp add: get_crystal_class_name_def str_int_ok dict_get_def lookup_table)

lemmas name_small = name_Some [OF small_convertible]

lemma name_over_limit:
  "10 ^ max_str_digits \<le> \<bar>n\<bar> \<Longrightarrow> get_crystal_class_name (Some n) g = (Inl ValueError, g)"
  by (simp add: get_crystal_class_name_def str_int_err)

lemma info_raises:
  "get_crystal_class_name x g = (Inl e, g) \<Longrightarrow> get_crystal_system_info x g = (Inl e, g)"
  by (simp add: get_crystal_system_info_def)

lemma info_found:
  assumes "get_crystal_class_name x g = (Inr nm, g)"
    and "CRYSTAL_SYSTEM_INFO g nm = Some entry"
    and "entry ''description'' = Some d" and "entry ''examples'' = Some ex"
  shows "get_crystal_system_info x g =
     (Inr (dict_of [(''name'', PStr nm), (''description'', d), (''examples'', ex)]), g)"
  using assms by (simp add: get_crystal_system_info_def dict_get_def subscript_def)

lemma info_missing:
  assumes "get_crystal_class_name x g = (Inr nm, g)"
    and "CRYSTAL_SYSTEM_INFO g nm = None"
  shows "get_crystal_system_info x g =
     (Inr (dict_of [(''name'', PStr nm),
                    (''description'', PStr ''No additional information available for this crystal system.''),
                    (''examples'', PList [])]), g)"
  using assms by (simp add: get_crystal_system_info_def dict_get_def subscript_def dict_of_def)

lemma name_convertible:
  "convertible x \<Longrightarrow> \<exists>nm. get_crystal_class_name x module_globals = (Inr nm, module_globals)"
  by (cases x) (simp_all add: convertible_def name_None name_Some)

lemma name_not_convertible:
  "\<not> convertible x \<Longrightarrow> get_crystal_class_name x g = (Inl ValueError, g)"
  by (cases x) (simp_all add: convertible_def name_over_limit)

lemma info_shape:
  assumes "get_crystal_class_name x module_globals = (Inr nm, module_globals)"
  shows "\<exists>d e. get_crystal_system_info x module_globals =
     (Inr (dict_of [(''name'', PStr nm), (''description'', PStr d), (''examples'', PList e)]),
      module_globals)"
proof (cases "CRYSTAL_SYSTEM_INFO module_globals nm")
  case None
  then show ?thesis using info_missing [OF assms] by blast
next
  case (Some entry)
  from info_entry_shape [OF Some] obtain d e
    where "entry ''description'' = Some (PStr d)" and "entry ''examples'' = Some (PList e)"
    by blast
  with Some show ?thesis using info_found [OF assms] by blast
qed

lemma U_not_key:
  "CRYSTAL_SYSTEM_INFO module_globals (CHR ''U'' # s) = None"
  by (simp add: module_globals_def dict_of_def)

lemma examples_of_key:
  "CRYSTAL_SYSTEM_INFO module_globals k = Some entry \<Longrightarrow>
     entry ''examples'' = Some (PList (
       if k = ''Isometric (Cubic)'' then [''Pyrite'', ''Halite'', ''Fluorite'', ''Galena'', ''Diamond'']
       else if k = ''Hexagonal'' then [''Beryl'', ''Apatite'', ''Vanadinite'']
       else if k = ''Tetragonal'' then [''Zircon'', ''Rutile'', ''Vesuvianite'']
       else if k = ''Orthorhombic'' then [''Olivine'', ''Topaz'', ''Baryte'', ''Aragonite'']
       else if k = ''Monoclinic'' then [''Gypsum'', ''Orthoclase'', ''Hornblende'', ''Malachite'']
       else if k = ''Triclinic'' then [''Plagioclase'', ''Kyanite'', ''Turquoise'', ''Microcline'']
       else if k = ''Trigonal'' then [''Quartz'', ''Calcite'', ''Corundum'', ''Tourmaline'']
       else [''Opal'', ''Obsidian'', ''Limonite'']))"
  by (auto simp: module_globals_def dict_of_def split: if_splits)

lemma info_state: "snd (get_crystal_system_info x g) = g"
proof (cases "get_crystal_class_name x g")
  case (Pair r g1)
  with name_state [of x g] have "g1 = g" by simp
  with Pair show ?thesis
    by (cases r) (simp_all add: get_crystal_system_info_def Let_def split: sum.split)
qed

lemma name_inj_Some:
  assumes "\<bar>m\<bar> < 10 ^ max_str_digits" "\<bar>n\<bar> < 10 ^ max_str_digits"
    and "fst (get_crystal_class_name (Some m) module_globals) =
         fst (get_crystal_class_name (Some n) module_globals)"
  shows "m = n"
  using assms decimal_inj [of m n]
  by (auto simp: name_Some split: if_splits)

lemma power_limit_abs: "\<bar>(10::int) ^ k\<bar> = 10 ^ k"
  by simp

lemma limit_value: "(10::int) ^ 4300 = 10 ^ max_str_digits"
  by (simp only: max_str_digits_def)

section \<open>The claims\<close>

text \<open>
  C1: for every identifier from 1 to 8, \<open>get_crystal_class_name\<close> returns the fixed name of
  the class table: 1 "Isometric (Cubic)", 2 "Hexagonal", 3 "Tetragonal", 4 "Orthorhombic",
  5 "Monoclinic", 6 "Triclinic", 7 "Trigonal", 8 "Amorphous".
\<close>

theorem class_names_1_to_8:
  "fst (get_crystal_class_name (Some 1) module_globals) = Inr ''Isometric (Cubic)'' \<and>
   fst (get_crystal_class_name (Some 2) module_globals) = Inr ''Hexagonal'' \<and>
   fst (get_crystal_class_name (Some 3) module_globals) = Inr ''Tetragonal'' \<and>
   fst (get_crystal_class_name (Some 4) module_globals) = Inr ''Orthorhombic'' \<and>
   fst (get_crystal_class_name (Some 5) module_globals) = Inr ''Monoclinic'' \<and>
   fst (get_crystal_class_name (Some 6) module_globals) = Inr ''Triclinic'' \<and>
   fst (get_crystal_class_name (Some 7) module_globals) = Inr ''Trigonal'' \<and>
   fst (get_crystal_class_name (Some 8) module_globals) = Inr ''Amorphous''"
  by (simp add: name_small)

text \<open>
  C2, as amended: for every integer outside 1..8 that has at most 4300 decimal digits,
  \<open>get_crystal_class_name\<close> returns "Unknown Crystal Class (<identifier>)" with the
  identifier in decimal: an optional minus sign, then digits 0-9 with no leading zero that
  denote the absolute value; for 99 the result is "Unknown Crystal Class (99)".
\<close>

theorem name_outside_table:
  "((n < 1 \<or> 8 < n) \<and> \<bar>n\<bar> < 10 ^ max_str_digits \<longrightarrow>
      fst (get_crystal_class_name (Some n) module_globals) =
        Inr (''Unknown Crystal Class ('' @ decimal n @ '')'')) \<and>
   (\<exists>ds. decimal n = (if n < 0 then ''-'' else []) @ ds \<and> ds \<noteq> [] \<and>
      set ds \<subseteq> set ''0123456789'' \<and> (hd ds = CHR ''0'' \<longrightarrow> ds = ''0'') \<and>
      int (nat_of_digits ds) = \<bar>n\<bar>) \<and>
   fst (get_crystal_class_name (Some 99) module_globals) = Inr ''Unknown Crystal Class (99)''"
proof (intro conjI impI)
  assume "(n < 1 \<or> 8 < n) \<and> \<bar>n\<bar> < 10 ^ max_str_digits"
  then show "fst (get_crystal_class_name (Some n) module_globals) =
        Inr (''Unknown Crystal Class ('' @ decimal n @ '')'')"
    by (auto simp: name_Some)
next
  show "\<exists>ds. decimal n = (if n < 0 then ''-'' else []) @ ds \<and> ds \<noteq> [] \<and>
      set ds \<subseteq> set ''0123456789'' \<and> (hd ds = CHR ''0'' \<longrightarrow> ds = ''0'') \<and>
      int (nat_of_digits ds) = \<bar>n\<bar>"
    by (rule decimal_shape)
next
  show "fst (get_crystal_class_name (Some 99) module_globals) = Inr ''Unknown Crystal Class (99)''"
    by (simp add: name_small decimal_99)
qed

theorem name_outside_table_witness:
  "(- 5 :: int) < 1 \<and> \<bar>- 5 :: int\<bar> < 10 ^ max_str_digits \<and>
   fst (get_crystal_class_name (Some (- 5)) module_globals) = Inr ''Unknown Crystal Class (-5)''"
proof -
  have c: "\<bar>- 5 :: int\<bar> < 10 ^ max_str_digits" by (rule small_convertible) simp
  show ?thesis using name_outside_table [of "- 5"] c by (simp add: decimal_neg)
qed

theorem name_outside_table_counterexample:
  "(8::int) < 10 ^ 4300 \<and>
   fst (get_crystal_class_name (Some (10 ^ 4300)) module_globals) = Inl ValueError"
proof -
  have "(10::int) ^ 1 \<le> 10 ^ max_str_digits"
    by (rule power_increasing) (simp_all add: max_str_digits_def)
  then have "(8::int) < 10 ^ max_str_digits" by simp
  moreover have "fst (get_crystal_class_name (Some (10 ^ max_str_digits)) module_globals) = Inl ValueError"
    by (simp add: name_over_limit)
  ultimately show ?thesis unfolding max_str_digits_def by (rule conjI)
qed

text \<open>
  C3: when the identifier is absent (\<open>None\<close>), \<open>get_crystal_class_name\<close> returns the
  string "Unknown".
\<close>

theorem name_of_None:
  "fst (get_crystal_class_name None module_globals) = Inr ''Unknown''"
  by (simp add: get_crystal_class_name_def)

text \<open>
  C4, as amended: whenever \<open>get_crystal_class_name\<close> returns a name that is not a key of
  the info table, \<open>get_crystal_system_info\<close> returns the dictionary with that name, the
  description "No additional information available for this crystal system." and an empty
  list of examples. This is the case for the absent identifier and for every integer outside
  1..8 that has at most 4300 decimal digits; the results for \<open>None\<close> and 99 are the two
  dictionaries the specification gives.
\<close>

theorem info_default:
  "(fst (get_crystal_class_name x module_globals) = Inr nm \<and>
    CRYSTAL_SYSTEM_INFO module_globals nm = None \<longrightarrow>
      fst (get_crystal_system_info x module_globals) =
        Inr (dict_of [(''name'', PStr nm),
                      (''description'', PStr ''No additional information available for this crystal system.''),
                      (''examples'', PList [])])) \<and>
   ((n < 1 \<or> 8 < n) \<and> \<bar>n\<bar> < 10 ^ max_str_digits \<longrightarrow>
      fst (get_crystal_system_info (Some n) module_globals) =
        Inr (dict_of [(''name'', PStr (''Unknown Crystal Class ('' @ decimal n @ '')'')),
                      (''description'', PStr ''No additional information available for this crystal system.''),
                      (''examples'', PList [])])) \<and>
   fst (get_crystal_system_info None module_globals) =
     Inr (dict_of [(''name'', PStr ''Unknown''),
                   (''description'', PStr ''No additional information available for this crystal system.''),
                   (''examples'', PList [])]) \<and>
   fst (get_crystal_system_info (Some 99) module_globals) =
     Inr (dict_of [(''name'', PStr ''Unknown Crystal Class (99)''),
                   (''description'', PStr ''No additional information available for this crystal system.''),
                   (''examples'', PList [])])"
proof -
  have gen: "fst (get_crystal_system_info y module_globals) =
        Inr (dict_of [(''name'', PStr s),
                      (''description'', PStr ''No additional information available for this crystal system.''),
                      (''examples'', PList [])])"
    if "fst (get_crystal_class_name y module_globals) = Inr s"
      and "CRYSTAL_SYSTEM_INFO module_globals s = None" for y s
  proof -
    from that(1) name_state [of y module_globals]
    have "get_crystal_class_name y module_globals = (Inr s, module_globals)"
      by (simp add: prod_eq_iff)
    from info_missing [OF this that(2)] show ?thesis by simp
  qed
  have out: "fst (get_crystal_system_info (Some m) module_globals) =
        Inr (dict_of [(''name'', PStr (''Unknown Crystal Class ('' @ decimal m @ '')'')),
                      (''description'', PStr ''No additional information available for this crystal system.''),
                      (''examples'', PList [])])"
    if "(m < 1 \<or> 8 < m) \<and> \<bar>m\<bar> < 10 ^ max_str_digits" for m
  proof (rule gen)
    from that show "fst (get_crystal_class_name (Some m) module_globals) =
        Inr (''Unknown Crystal Class ('' @ decimal m @ '')'')"
      by (auto simp: name_Some)
    show "CRYSTAL_SYSTEM_INFO module_globals (''Unknown Crystal Class ('' @ decimal m @ '')'') = None"
      by (simp add: U_not_key)
  qed
  have none: "fst (get_crystal_system_info None module_globals) =
     Inr (dict_of [(''name'', PStr ''Unknown''),
                   (''description'', PStr ''No additional information available for this crystal system.''),
                   (''examples'', PList [])])"
    by (rule gen) (simp_all add: name_None U_not_key)
  have "(99::int) < 1 \<or> (8::int) < 99" "\<bar>99::int\<bar> < 10 ^ max_str_digits"
    by (simp_all add: small_limit)
  then have n99: "fst (get_crystal_system_info (Some 99) module_globals) =
     Inr (dict_of [(''name'', PStr ''Unknown Crystal Class (99)''),
                   (''description'', PStr ''No additional information available for this crystal system.''),
                   (''examples'', PList [])])"
    using out [of 99] by (simp add: decimal_99)
  from gen [of x nm] out [of n] none n99 show ?thesis by blast
qed

theorem info_default_witness:
  "fst (get_crystal_class_name (Some 0) module_globals) = Inr ''Unknown Crystal Class (0)'' \<and>
   CRYSTAL_SYSTEM_INFO module_globals ''Unknown Crystal Class (0)'' = None \<and>
   (0::int) < 1 \<and> \<bar>0::int\<bar> < 10 ^ max_str_digits \<and>
   fst (get_crystal_system_info (Some 0) module_globals) =
        Inr (dict_of [(''name'', PStr ''Unknown Crystal Class (0)''),
                      (''description'', PStr ''No additional information available for this crystal system.''),
                      (''examples'', PList [])])"
proof -
  have c: "\<bar>0::int\<bar> < 10 ^ max_str_digits" by (rule small_convertible) simp
  have k: "CRYSTAL_SYSTEM_INFO module_globals ''Unknown Crystal Class (0)'' = None"
    by (simp add: U_not_key)
  have nm: "fst (get_crystal_class_name (Some 0) module_globals) = Inr ''Unknown Crystal Class (0)''"
    by (simp add: name_small decimal_0)
  show ?thesis
    using info_default [of "Some 0" "''Unknown Crystal Class (0)''" 0] c k nm
    by (simp add: decimal_0)
qed

theorem info_default_counterexample:
  "- (10 ^ 4300) < (1::int) \<and>
   fst (get_crystal_system_info (Some (- (10 ^ 4300))) module_globals) = Inl ValueError"
proof -
  have "- (10 ^ max_str_digits) < (1::int)"
    by (rule less_trans [of _ 0]) simp_all
  moreover have "get_crystal_class_name (Some (- (10 ^ max_str_digits))) module_globals =
      (Inl ValueError, module_globals)"
    by (rule name_over_limit) simp
  then have "fst (get_crystal_system_info (Some (- (10 ^ max_str_digits))) module_globals) = Inl ValueError"
    by (simp add: info_raises)
  ultimately show ?thesis unfolding max_str_digits_def by (rule conjI)
qed

text \<open>
  C5, as amended: whenever \<open>get_crystal_class_name\<close> returns a name, the \<open>name\<close> entry of
  the dictionary that \<open>get_crystal_system_info\<close> returns on the same identifier is that
  name, and whenever it raises, \<open>get_crystal_system_info\<close> raises the same error. A name is
  returned for the absent identifier and for every integer of at most 4300 decimal digits.
\<close>

theorem info_name_is_class_name:
  "(case fst (get_crystal_class_name x module_globals) of
      Inr nm \<Rightarrow> field (get_crystal_system_info x module_globals) ''name'' = Some (PStr nm)
    | Inl e \<Rightarrow> fst (get_crystal_system_info x module_globals) = Inl e) \<and>
   (convertible x \<longrightarrow>
      (\<exists>nm. fst (get_crystal_class_name x module_globals) = Inr nm \<and>
         field (get_crystal_system_info x module_globals) ''name'' = Some (PStr nm)))"
proof -
  have full: "get_crystal_class_name x module_globals =
      (fst (get_crystal_class_name x module_globals), module_globals)"
    using name_state [of x module_globals] by (simp add: prod_eq_iff)
  have ok: "field (get_crystal_system_info x module_globals) ''name'' = Some (PStr nm)"
    if "fst (get_crystal_class_name x module_globals) = Inr nm" for nm
  proof -
    from that full have "get_crystal_class_name x module_globals = (Inr nm, module_globals)"
      by simp
    from info_shape [OF this] show ?thesis by (auto simp: field_def dict_of_def)
  qed
  have err: "fst (get_crystal_system_info x module_globals) = Inl e"
    if "fst (get_crystal_class_name x module_globals) = Inl e" for e
  proof -
    from that full have "get_crystal_class_name x module_globals = (Inl e, module_globals)"
      by simp
    then show ?thesis by (simp add: info_raises)
  qed
  have "convertible x \<longrightarrow>
      (\<exists>nm. fst (get_crystal_class_name x module_globals) = Inr nm \<and>
         field (get_crystal_system_info x module_globals) ''name'' = Some (PStr nm))"
  proof
    assume "convertible x"
    from name_convertible [OF this] obtain nm
      where "fst (get_crystal_class_name x module_globals) = Inr nm" by auto
    with ok show "\<exists>nm. fst (get_crystal_class_name x module_globals) = Inr nm \<and>
         field (get_crystal_system_info x module_globals) ''name'' = Some (PStr nm)"
      by blast
  qed
  with ok err show ?thesis by (simp split: sum.split)
qed

theorem info_name_is_class_name_witness:
  "convertible (Some 5) \<and>
   fst (get_crystal_class_name (Some 5) module_globals) = Inr ''Monoclinic'' \<and>
   field (get_crystal_system_info (Some 5) module_globals) ''name'' = Some (PStr ''Monoclinic'')"
proof -
  have c: "convertible (Some 5)"
    by (simp add: convertible_def small_limit)
  have nm: "fst (get_crystal_class_name (Some 5) module_globals) = Inr ''Monoclinic''"
    by (simp add: name_small)
  show ?thesis using info_name_is_class_name [of "Some 5"] c nm by simp
qed

theorem info_name_is_class_name_counterexample:
  "fst (get_crystal_class_name (Some (10 ^ 4300 + 1)) module_globals) = Inl ValueError \<and>
   field (get_crystal_system_info (Some (10 ^ 4300 + 1)) module_globals) ''name'' = None"
proof -
  have "(10::int) ^ max_str_digits \<le> \<bar>10 ^ max_str_digits + 1\<bar>" by simp
  then have n: "get_crystal_class_name (Some (10 ^ max_str_digits + 1)) module_globals =
      (Inl ValueError, module_globals)"
    by (rule name_over_limit)
  then have "field (get_crystal_system_info (Some (10 ^ max_str_digits + 1)) module_globals) ''name'' = None"
    by (simp add: info_raises field_def)
  with n have "fst (get_crystal_class_name (Some (10 ^ max_str_digits + 1)) module_globals) = Inl ValueError \<and>
   field (get_crystal_system_info (Some (10 ^ max_str_digits + 1)) module_globals) ''name'' = None"
    by simp
  then show ?thesis unfolding max_str_digits_def .
qed

text \<open>
  C6: for every identifier from 1 to 8 the returned description is a non-empty string and
  the returned examples are a non-empty list, both taken from the info table's entry for
  the resolved name; the eight lists are the ones of the table, for identifier 1
  Pyrite, Halite, Fluorite, Galena, Diamond.
\<close>

theorem info_1_to_8:
  "(1 \<le> n \<and> n \<le> 8 \<longrightarrow>
     (\<exists>nm entry d e.
        fst (get_crystal_class_name (Some n) module_globals) = Inr nm \<and>
        CRYSTAL_SYSTEM_INFO module_globals nm = Some entry \<and>
        entry ''description'' = Some (PStr d) \<and> entry ''examples'' = Some (PList e) \<and>
        field (get_crystal_system_info (Some n) module_globals) ''description'' = Some (PStr d) \<and>
        field (get_crystal_system_info (Some n) module_globals) ''examples'' = Some (PList e) \<and>
        d \<noteq> [] \<and> e \<noteq> [])) \<and>
   field (get_crystal_system_info (Some 1) module_globals) ''examples'' =
     Some (PList [''Pyrite'', ''Halite'', ''Fluorite'', ''Galena'', ''Diamond'']) \<and>
   field (get_crystal_system_info (Some 2) module_globals) ''examples'' =
     Some (PList [''Beryl'', ''Apatite'', ''Vanadinite'']) \<and>
   field (get_crystal_system_info (Some 3) module_globals) ''examples'' =
     Some (PList [''Zircon'', ''Rutile'', ''Vesuvianite'']) \<and>
   field (get_crystal_system_info (Some 4) module_globals) ''examples'' =
     Some (PList [''Olivine'', ''Topaz'', ''Baryte'', ''Aragonite'']) \<and>
   field (get_crystal_system_info (Some 5) module_globals) ''examples'' =
     Some (PList [''Gypsum'', ''Orthoclase'', ''Hornblende'', ''Malachite'']) \<and>
   field (get_crystal_system_info (Some 6) module_globals) ''examples'' =
     Some (PList [''Plagioclase'', ''Kyanite'', ''Turquoise'', ''Microcline'']) \<and>
   field (get_crystal_system_info (Some 7) module_globals) ''examples'' =
     Some (PList [''Quartz'', ''Calcite'', ''Corundum'', ''Tourmaline'']) \<and>
   field (get_crystal_system_info (Some 8) module_globals) ''examples'' =
     Some (PList [''Opal'', ''Obsidian'', ''Limonite''])"
proof -
  have gen: "\<exists>nm entry d e.
        fst (get_crystal_class_name (Some m) module_globals) = Inr nm \<and>
        CRYSTAL_SYSTEM_INFO module_globals nm = Some entry \<and>
        entry ''description'' = Some (PStr d) \<and> entry ''examples'' = Some (PList e) \<and>
        field (get_crystal_system_info (Some m) module_globals) ''description'' = Some (PStr d) \<and>
        field (get_crystal_system_info (Some m) module_globals) ''examples'' = Some (PList e) \<and>
        d \<noteq> [] \<and> e \<noteq> []" if "1 \<le> m" "m \<le> 8" for m
  proof -
    from that have "\<bar>m\<bar> < 100" by simp
    from name_small [OF this] obtain nm where
      nm: "get_crystal_class_name (Some m) module_globals = (Inr nm, module_globals)"
      by blast
    from that have "m \<in> {1, 2, 3, 4, 5, 6, 7, 8}"
      by (intro table_keys) simp_all
    then have "nm \<in> dom (CRYSTAL_SYSTEM_INFO module_globals)"
      using nm \<open>\<bar>m\<bar> < 100\<close> unfolding dom_info by (auto simp: name_small)
    then obtain entry where e: "CRYSTAL_SYSTEM_INFO module_globals nm = Some entry"
      by blast
    from info_entry_shape [OF e] obtain d ex where
      s: "entry ''description'' = Some (PStr d)" "entry ''examples'' = Some (PList ex)"
        "d \<noteq> []" "ex \<noteq> []"
      by blast
    from info_found [OF nm e s(1) s(2)]
    have "field (get_crystal_system_info (Some m) module_globals) ''description'' = Some (PStr d)"
      "field (get_crystal_system_info (Some m) module_globals) ''examples'' = Some (PList ex)"
      by (simp_all add: field_def dict_of_def)
    with nm e s show ?thesis by auto
  qed
  have "field (get_crystal_system_info (Some 1) module_globals) ''examples'' =
     Some (PList [''Pyrite'', ''Halite'', ''Fluorite'', ''Galena'', ''Diamond''])"
    using gen [of 1] by (auto simp: name_small dest: examples_of_key)
  moreover have "field (get_crystal_system_info (Some 2) module_globals) ''examples'' =
     Some (PList [''Beryl'', ''Apatite'', ''Vanadinite''])"
    using gen [of 2] by (auto simp: name_small dest: examples_of_key)
  moreover have "field (get_crystal_system_info (Some 3) module_globals) ''examples'' =
     Some (PList [''Zircon'', ''Rutile'', ''Vesuvianite''])"
    using gen [of 3] by (auto simp: name_small dest: examples_of_key)
  moreover have "field (get_crystal_system_info (Some 4) module_globals) ''examples'' =
     Some (PList [''Olivine'', ''Topaz'', ''Baryte'', ''Aragonite''])"
    using gen [of 4] by (auto simp: name_small dest: examples_of_key)
  moreover have "field (get_crystal_system_info (Some 5) module_globals) ''examples'' =
     Some (PList [''Gypsum'', ''Orthoclase'', ''Hornblende'', ''Malachite''])"
    using gen [of 5] by (auto simp: name_small dest: examples_of_key)
  moreover have "field (get_crystal_system_info (Some 6) module_globals) ''examples'' =
     Some (PList [''Plagioclase'', ''Kyanite'', ''Turquoise'', ''Microcline''])"
    using gen [of 6] by (auto simp: name_small dest: examples_of_key)
  moreover have "field (get_crystal_system_info (Some 7) module_globals) ''examples'' =
     Some (PList [''Quartz'', ''Calcite'', ''Corundum'', ''Tourmaline''])"
    using gen [of 7] by (auto simp: name_small dest: examples_of_key)
  moreover have "field (get_crystal_system_info (Some 8) module_globals) ''examples'' =
     Some (PList [''Opal'', ''Obsidian'', ''Limonite''])"
    using gen [of 8] by (auto simp: name_small dest: examples_of_key)
  ultimately show ?thesis using gen [of n] by blast
qed

theorem info_1_to_8_witness:
  "(1::int) \<le> 3 \<and> (3::int) \<le> 8 \<and>
   field (get_crystal_system_info (Some 3) module_globals) ''examples'' \<noteq> Some (PList []) \<and>
   field (get_crystal_system_info (Some 3) module_globals) ''description'' \<noteq> Some (PStr [])"
  using info_1_to_8 [of 3] by auto

text \<open>
  C7, as amended: for the absent identifier and every integer of at most 4300 decimal
  digits, \<open>get_crystal_class_name\<close> returns a string and \<open>get_crystal_system_info\<close> returns
  a dictionary with a string name, a string description and a list of examples; no input
  reaches a \<open>KeyError\<close>. For every integer of more than 4300 digits both calls raise the
  \<open>ValueError\<close> of the conversion to text.
\<close>

theorem both_total:
  "(convertible x \<longrightarrow>
     (\<exists>nm d e.
        get_crystal_class_name x module_globals = (Inr nm, module_globals) \<and>
        get_crystal_system_info x module_globals =
          (Inr (dict_of [(''name'', PStr nm), (''description'', PStr d), (''examples'', PList e)]),
           module_globals))) \<and>
   (\<not> convertible x \<longrightarrow>
      get_crystal_class_name x module_globals = (Inl ValueError, module_globals) \<and>
      get_crystal_system_info x module_globals = (Inl ValueError, module_globals))"
proof (intro conjI impI)
  assume "convertible x"
  from name_convertible [OF this] obtain nm
    where nm: "get_crystal_class_name x module_globals = (Inr nm, module_globals)" by blast
  from info_shape [OF nm] nm
  show "\<exists>nm d e.
        get_crystal_class_name x module_globals = (Inr nm, module_globals) \<and>
        get_crystal_system_info x module_globals =
          (Inr (dict_of [(''name'', PStr nm), (''description'', PStr d), (''examples'', PList e)]),
           module_globals)"
    by blast
next
  assume "\<not> convertible x"
  then show "get_crystal_class_name x module_globals = (Inl ValueError, module_globals)"
    by (rule name_not_convertible)
  then show "get_crystal_system_info x module_globals = (Inl ValueError, module_globals)"
    by (rule info_raises)
qed

theorem both_total_witness:
  "convertible None \<and>
   get_crystal_class_name None module_globals = (Inr ''Unknown'', module_globals) \<and>
   fst (get_crystal_system_info None module_globals) \<noteq> Inl ValueError \<and>
   \<not> convertible (Some (10 ^ max_str_digits)) \<and>
   get_crystal_system_info (Some (10 ^ max_str_digits)) module_globals =
     (Inl ValueError, module_globals)"
proof -
  have c: "convertible None" by (simp add: convertible_def)
  have n: "\<not> convertible (Some (10 ^ max_str_digits))" by (simp add: convertible_def)
  show ?thesis
    using both_total [of None] both_total [of "Some (10 ^ max_str_digits)"] c n
    by (auto simp: name_None)
qed

theorem both_total_counterexample:
  "fst (get_crystal_class_name (Some (10 ^ 4300)) module_globals) = Inl ValueError \<and>
   fst (get_crystal_system_info (Some (10 ^ 4300)) module_globals) = Inl ValueError"
proof -
  have "(10::int) ^ max_str_digits \<le> \<bar>10 ^ max_str_digits\<bar>" by simp
  then have n: "get_crystal_class_name (Some (10 ^ max_str_digits)) module_globals =
      (Inl ValueError, module_globals)"
    by (rule name_over_limit)
  then have "get_crystal_system_info (Some (10 ^ max_str_digits)) module_globals =
      (Inl ValueError, module_globals)"
    by (rule info_raises)
  with n have "fst (get_crystal_class_name (Some (10 ^ max_str_digits)) module_globals) = Inl ValueError \<and>
   fst (get_crystal_system_info (Some (10 ^ max_str_digits)) module_globals) = Inl ValueError"
    by simp
  then show ?thesis unfolding max_str_digits_def .
qed

text \<open>
  C8: both functions are deterministic and leave the module state as it was, whatever the
  state: a call returns the globals unchanged, so a second call with the same input, after
  a call of either function with any input, returns what the first returned.
\<close>

theorem deterministic_pure:
  "snd (get_crystal_class_name x g) = g \<and>
   snd (get_crystal_system_info x g) = g \<and>
   get_crystal_class_name x (snd (get_crystal_class_name x g)) = get_crystal_class_name x g \<and>
   get_crystal_system_info x (snd (get_crystal_system_info x g)) = get_crystal_system_info x g \<and>
   get_crystal_class_name x (snd (get_crystal_system_info y g)) = get_crystal_class_name x g \<and>
   get_crystal_system_info x (snd (get_crystal_class_name y g)) = get_crystal_system_info x g"
  by (simp add: name_state info_state)



text \<open>
  C10, as amended: \<open>get_crystal_class_name\<close> is injective on the absent identifier and the
  integers of at most 4300 decimal digits: such an input and any different input give
  different results. The eight fixed names are pairwise different, none of them is
  "Unknown" or "Unknown Crystal Class (n)" for an integer n, and different integers give
  different formatted strings.
\<close>

theorem name_injective:
  "(convertible x \<and> x \<noteq> y \<longrightarrow>
      fst (get_crystal_class_name x module_globals) \<noteq> fst (get_crystal_class_name y module_globals)) \<and>
   distinct (map (\<lambda>i. fst (get_crystal_class_name (Some i) module_globals)) [1, 2, 3, 4, 5, 6, 7, 8]) \<and>
   (1 \<le> i \<and> i \<le> 8 \<longrightarrow>
      fst (get_crystal_class_name (Some i) module_globals) \<noteq> Inr ''Unknown'' \<and>
      fst (get_crystal_class_name (Some i) module_globals) \<noteq>
        Inr (''Unknown Crystal Class ('' @ decimal n @ '')'')) \<and>
   (m \<noteq> n \<longrightarrow>
      ''Unknown Crystal Class ('' @ decimal m @ '')'' \<noteq> ''Unknown Crystal Class ('' @ decimal n @ '')'')"
proof (intro conjI impI)
  assume a: "convertible x \<and> x \<noteq> y"
  show "fst (get_crystal_class_name x module_globals) \<noteq> fst (get_crystal_class_name y module_globals)"
  proof (cases "convertible y")
    case False
    from name_not_convertible [OF this]
    have "fst (get_crystal_class_name y module_globals) = Inl ValueError" by simp
    moreover from a name_convertible [of x] obtain nm
      where "fst (get_crystal_class_name x module_globals) = Inr nm" by auto
    ultimately show ?thesis by simp
  next
    case True
    show ?thesis
    proof (cases x)
      case None
      with a obtain b where b: "y = Some b" by (cases y) auto
      with True have "\<bar>b\<bar> < 10 ^ max_str_digits" by (simp add: convertible_def)
      with None b show ?thesis by (simp add: name_Some name_None)
    next
      case (Some c)
      with a have c: "\<bar>c\<bar> < 10 ^ max_str_digits" by (simp add: convertible_def)
      show ?thesis
      proof (cases y)
        case None
        with Some c show ?thesis by (simp add: name_Some name_None)
      next
        case (Some b)
        with True have "\<bar>b\<bar> < 10 ^ max_str_digits" by (simp add: convertible_def)
        with c Some \<open>x = Some c\<close> a show ?thesis
          using name_inj_Some [of c b] by auto
      qed
    qed
  qed
next
  show "distinct (map (\<lambda>i. fst (get_crystal_class_name (Some i) module_globals)) [1, 2, 3, 4, 5, 6, 7, 8])"
    by (simp add: name_small)
next
  assume a: "1 \<le> i \<and> i \<le> 8"
  then have "i \<in> {1, 2, 3, 4, 5, 6, 7, 8}"
    by (intro table_keys) simp_all
  then show "fst (get_crystal_class_name (Some i) module_globals) \<noteq> Inr ''Unknown''"
    by (auto simp: name_small)
next
  assume a: "1 \<le> i \<and> i \<le> 8"
  then have "i \<in> {1, 2, 3, 4, 5, 6, 7, 8}"
    by (intro table_keys) simp_all
  then show "fst (get_crystal_class_name (Some i) module_globals) \<noteq>
        Inr (''Unknown Crystal Class ('' @ decimal n @ '')'')"
    by (auto simp: name_small)
next
  assume "m \<noteq> n"
  then show "''Unknown Crystal Class ('' @ decimal m @ '')'' \<noteq> ''Unknown Crystal Class ('' @ decimal n @ '')''"
    by (auto dest: decimal_inj)
qed

theorem name_injective_witness:
  "convertible (Some 1) \<and> Some (1::int) \<noteq> Some 7 \<and>
   fst (get_crystal_class_name (Some 1) module_globals) \<noteq> fst (get_crystal_class_name (Some 7) module_globals) \<and>
   (1::int) \<le> 2 \<and> (2::int) \<le> 8 \<and>
   fst (get_crystal_class_name (Some 2) module_globals) \<noteq> Inr ''Unknown Crystal Class (2)'' \<and>
   (10::int) \<noteq> 2 \<and> ''Unknown Crystal Class (10)'' \<noteq> ''Unknown Crystal Class (2)''"
proof -
  have s2: "decimal 2 = ''2''" and s10: "decimal 10 = ''10''"
    by code_simp+
  have c: "convertible (Some 1)" by (simp add: convertible_def small_limit)
  show ?thesis
    using name_injective [where x = "Some 1" and y = "Some 7" and i = 2 and n = 2 and m = 10] c
    by (simp add: s2 s10)
qed

theorem name_injective_counterexample:
  "Some ((10::int) ^ 4300) \<noteq> Some (10 ^ 4300 + 1) \<and>
   fst (get_crystal_class_name (Some (10 ^ 4300)) module_globals) =
   fst (get_crystal_class_name (Some (10 ^ 4300 + 1)) module_globals)"
proof -
  have d: "Some ((10::int) ^ max_str_digits) \<noteq> Some (10 ^ max_str_digits + 1)" by simp
  have "(10::int) ^ max_str_digits \<le> \<bar>10 ^ max_str_digits\<bar>" by simp
  then have a: "get_crystal_class_name (Some (10 ^ max_str_digits)) module_globals =
      (Inl ValueError, module_globals)"
    by (rule name_over_limit)
  have "(10::int) ^ max_str_digits \<le> \<bar>10 ^ max_str_digits + 1\<bar>" by simp
  then have b: "get_crystal_class_name (Some (10 ^ max_str_digits + 1)) module_globals =
      (Inl ValueError, module_globals)"
    by (rule name_over_limit)
  from d a b have "Some ((10::int) ^ max_str_digits) \<noteq> Some (10 ^ max_str_digits + 1) \<and>
   fst (get_crystal_class_name (Some (10 ^ max_str_digits)) module_globals) =
   fst (get_crystal_class_name (Some (10 ^ max_str_digits + 1)) module_globals)"
    by simp
  then show ?thesis unfolding max_str_digits_def .
qed

end
